theory Spec2Isabelle
  imports Complex_Main
begin

section \<open>Temperature alert: data model\<close>

text \<open>
  Shallow embedding of \<^verbatim>\<open>temperature_alert/lib/temperature_alert.py\<close>.

  Python floats (temperatures, thresholds and \<^verbatim>\<open>time.time()\<close> readings) are modelled as
  \<^typ>\<open>real\<close>: comparisons, subtraction, absolute value and division are the exact ones.
  NaN, infinities and rounding are outside the model.

  \<^verbatim>\<open>Optional[float]\<close> is \<^typ>\<open>real option\<close>. Python strings are \<^typ>\<open>string\<close>.
\<close>

record SensorConfig =
  sensor_type :: string
  file_path :: "string option"
  url :: "string option"
  headers :: "(string \<times> string) list option"
  broker :: "string option"
  topic :: "string option"
  pin :: "int option"

record AlertConfig =
  threshold :: real
  hysteresis :: real
  check_interval :: int
  rate_of_change_threshold :: real
  notification_type :: string
  notification_config :: "(string \<times> string) list"

text \<open>
  The four sensor classes and the three notifier classes, as the constructors store their
  arguments. \<^verbatim>\<open>HTTPSensor\<close> stores \<^verbatim>\<open>headers or {}\<close>; \<^verbatim>\<open>WebhookNotifier\<close> stores
  \<^verbatim>\<open>config.get('method', 'POST')\<close>.
\<close>

datatype TemperatureSensor =
    FileSensor "string option"
  | HTTPSensor "string option" "(string \<times> string) list"
  | MQTTSensor "string option" "string option"
  | GPIOSensor "int option"

datatype Notifier =
    TelegramNotifier "string option" "string option"
  | DiscordNotifier "string option"
  | WebhookNotifier "string option" string

text \<open>
  The two messages the engine formats. The f-strings
  \<^verbatim>\<open>"Temperature changing too fast: {rate_of_change:.1f}..."\<close> and
  \<^verbatim>\<open>"Temperature exceeded threshold: {threshold}..."\<close> are kept as a tag with the number
  they format. A \<open>Send m t a\<close> is one call \<^verbatim>\<open>notifier.send(m, t, a)\<close>.
\<close>

datatype message = ChangingTooFast real | ExceededThreshold real

datatype call = Send message real bool

text \<open>
  Exceptions of construction. \<^verbatim>\<open>ValueError\<close> carries its message and is raised by
  \<^verbatim>\<open>_create_sensor\<close> and \<^verbatim>\<open>_create_notifier\<close> only. Setting up the MQTT client depends on
  the installed packages and the network; its failures are \<^verbatim>\<open>ImportError\<close> (paho-mqtt
  missing) and \<open>MQTTSetupError\<close>, which stands for whatever \<^verbatim>\<open>MQTTSensor.__init__\<close> raises
  while it parses the broker address and connects, of whatever class.
\<close>

datatype error = ValueError string | ImportError string | MQTTSetupError

text \<open>
  The environment of construction: \<^verbatim>\<open>MQTT_AVAILABLE\<close> and whether the MQTT client's
  \<^verbatim>\<open>connect\<close>/\<^verbatim>\<open>subscribe\<close>/\<^verbatim>\<open>loop_start\<close> go through for a broker and topic.
\<close>

record environment =
  MQTT_AVAILABLE :: bool
  mqtt_setup_ok :: "string option \<Rightarrow> string option \<Rightarrow> bool"

text \<open>
  The state of a \<^verbatim>\<open>TemperatureAlert\<close> object. The leading underscore of the private fields
  is dropped. \<^verbatim>\<open>_thread\<close> is not modelled. \<open>sent\<close> is not a field of the Python object: it
  records the calls made on \<^verbatim>\<open>self.notifier\<close>, oldest first, so that notifications can be
  observed.
\<close>

record TemperatureAlert =
  sensor_config :: SensorConfig
  alert_config :: AlertConfig
  sensor :: TemperatureSensor
  notifier :: Notifier
  running :: bool
  current_temp :: "real option"
  alert_active :: bool
  last_temp :: "real option"
  last_check_time :: "real option"
  history :: "real list"
  sent :: "call list"

section \<open>Construction\<close>

definition create_sensor :: "environment \<Rightarrow> SensorConfig \<Rightarrow> error + TemperatureSensor" where
  "create_sensor env config =
     (if sensor_type config = ''file'' then Inr (FileSensor (file_path config))
      else if sensor_type config = ''http'' then
        Inr (HTTPSensor (url config) (case headers config of None \<Rightarrow> [] | Some h \<Rightarrow> h))
      else if sensor_type config = ''mqtt'' then
        (if \<not> MQTT_AVAILABLE env then Inl (ImportError ''paho-mqtt not installed'')
         else if mqtt_setup_ok env (broker config) (topic config)
           then Inr (MQTTSensor (broker config) (topic config))
           else Inl MQTTSetupError)
      else if sensor_type config = ''gpio'' then Inr (GPIOSensor (pin config))
      else Inl (ValueError (''Unknown sensor type: '' @ sensor_type config)))"

definition create_notifier :: "AlertConfig \<Rightarrow> error + Notifier" where
  "create_notifier config =
     (let cfg = map_of (notification_config config) in
      if notification_type config = ''telegram'' then
        Inr (TelegramNotifier (cfg ''bot_token'') (cfg ''chat_id''))
      else if notification_type config = ''discord'' then
        Inr (DiscordNotifier (cfg ''webhook_url''))
      else if notification_type config = ''webhook'' then
        Inr (WebhookNotifier (cfg ''url'') (case cfg ''method'' of None \<Rightarrow> ''POST'' | Some m \<Rightarrow> m))
      else Inl (ValueError (''Unknown notification type: '' @ notification_type config)))"

text \<open>\<^verbatim>\<open>TemperatureAlert.__init__\<close>: the sensor first, then the notifier, then the state.\<close>

definition init :: "environment \<Rightarrow> SensorConfig \<Rightarrow> AlertConfig \<Rightarrow> error + TemperatureAlert" where
  "init env sc ac =
     (case create_sensor env sc of
        Inl e \<Rightarrow> Inl e
      | Inr sn \<Rightarrow>
          (case create_notifier ac of
             Inl e \<Rightarrow> Inl e
           | Inr nt \<Rightarrow>
               Inr \<lparr> sensor_config = sc, alert_config = ac, sensor = sn, notifier = nt,
                     running = False, current_temp = None, alert_active = False,
                     last_temp = None, last_check_time = None, history = [], sent = [] \<rparr>))"

section \<open>Classification\<close>

text \<open>
  \<^verbatim>\<open>self.notifier.send(...)\<close>. Every notifier class catches the exceptions of its delivery
  and returns, so a call is only recorded.
\<close>

definition notifier_send :: "TemperatureAlert \<Rightarrow> message \<Rightarrow> real \<Rightarrow> bool \<Rightarrow> TemperatureAlert" where
  "notifier_send self m t a = self\<lparr>sent := sent self @ [Send m t a]\<rparr>"

text \<open>
  The rate-of-change part of \<^verbatim>\<open>_check_alert\<close>. The guard
  \<^verbatim>\<open>if self._last_temp and self._last_check_time\<close> tests truthiness: \<^verbatim>\<open>None\<close> and
  \<^verbatim>\<open>0.0\<close> are both false. \<open>now\<close> is what \<^verbatim>\<open>time.time()\<close> returns there.
\<close>

definition rate_of_change_check :: "real \<Rightarrow> TemperatureAlert \<Rightarrow> real \<Rightarrow> TemperatureAlert" where
  "rate_of_change_check now self temperature =
     (case (last_temp self, last_check_time self) of
        (Some lt, Some lct) \<Rightarrow>
          if lt \<noteq> 0 \<and> lct \<noteq> 0 then
            (let time_diff = now - lct in
             if time_diff > 0 then
               (let rate_of_change = \<bar>temperature - lt\<bar> / (time_diff / 60) in
                if rate_of_change > rate_of_change_threshold (alert_config self)
                then notifier_send self (ChangingTooFast rate_of_change) temperature True
                else self)
             else self)
          else self
      | _ \<Rightarrow> self)"

text \<open>\<^verbatim>\<open>_check_alert\<close>: the returned boolean and the object after the call.\<close>

definition check_alert :: "real \<Rightarrow> TemperatureAlert \<Rightarrow> real \<Rightarrow> bool \<times> TemperatureAlert" where
  "check_alert now self temperature =
     (let thr = threshold (alert_config self);
          self1 = rate_of_change_check now self temperature
      in if temperature \<ge> thr \<and> \<not> alert_active self1 then
           (True, self1\<lparr>alert_active := True\<rparr>)
         else if temperature < thr - hysteresis (alert_config self1) \<and> alert_active self1 then
           (False, self1\<lparr>alert_active := False\<rparr>)
         else (alert_active self1, self1))"

section \<open>The monitoring loop\<close>

text \<open>
  One pass of the \<^verbatim>\<open>while\<close> body of \<^verbatim>\<open>_monitor_loop\<close> takes from the outside: what
  \<^verbatim>\<open>self.sensor.read_temperature()\<close> does (returns an optional reading, or raises), the clock
  read inside \<^verbatim>\<open>_check_alert\<close>, and the clock read at the end of the pass.
\<close>

datatype read_result = Returned "real option" | Raised

record pass =
  read_temperature :: read_result
  check_time :: real
  end_time :: real

text \<open>
  Lines 337 to 340 of the loop body: the reading becomes \<^verbatim>\<open>_current_temp\<close>, is appended
  to \<^verbatim>\<open>_history\<close>, and \<^verbatim>\<open>pop(0)\<close> drops the oldest entry once the list is longer
  than 100.
\<close>

definition record_reading :: "TemperatureAlert \<Rightarrow> real \<Rightarrow> TemperatureAlert" where
  "record_reading self temperature =
     (let self1 = self\<lparr>current_temp := Some temperature,
                        history := history self @ [temperature]\<rparr>
      in if length (history self1) > 100 then self1\<lparr>history := tl (history self1)\<rparr>
         else self1)"

text \<open>
  The \<^verbatim>\<open>try\<close> block. \<open>Inl\<close> is an exception leaving the block; only the sensor read can
  raise, and it does so before anything is written.
\<close>

datatype exn = SensorException

definition try_block :: "TemperatureAlert \<Rightarrow> pass \<Rightarrow> exn + TemperatureAlert" where
  "try_block self p =
     (case read_temperature p of
        Raised \<Rightarrow> Inl SensorException
      | Returned temperature \<Rightarrow>
          (let self4 =
             (case temperature of
                None \<Rightarrow> self
              | Some t \<Rightarrow>
                  (let self2 = record_reading self t;
                       (alert, self3) = check_alert (check_time p) self2 t
                   in if alert
                      then notifier_send self3
                             (ExceededThreshold (threshold (alert_config self3))) t True
                      else self3))
           in Inr (self4\<lparr>last_temp := temperature, last_check_time := Some (end_time p)\<rparr>)))"

text \<open>The loop body: \<^verbatim>\<open>except Exception\<close> logs and goes on, the object as it was.\<close>

definition monitor_pass :: "TemperatureAlert \<Rightarrow> pass \<Rightarrow> TemperatureAlert" where
  "monitor_pass self p = (case try_block self p of Inl e \<Rightarrow> self | Inr self' \<Rightarrow> self')"

text \<open>
  \<^verbatim>\<open>_monitor_loop\<close> over the passes the environment supplies: the condition
  \<^verbatim>\<open>while self._running\<close> is tested before each pass. The \<^verbatim>\<open>time.sleep\<close> between
  passes and the logging are not modelled.
\<close>

fun monitor_loop :: "TemperatureAlert \<Rightarrow> pass list \<Rightarrow> TemperatureAlert" where
  "monitor_loop self [] = self"
| "monitor_loop self (p # ps) =
     (if running self then monitor_loop (monitor_pass self p) ps else self)"

text \<open>The calls made on the notifier between two states of the object.\<close>

definition new_calls :: "TemperatureAlert \<Rightarrow> TemperatureAlert \<Rightarrow> call list" where
  "new_calls before after = drop (length (sent before)) (sent after)"

fun is_threshold_call :: "call \<Rightarrow> bool" where
  "is_threshold_call (Send (ExceededThreshold _) _ _) = True"
| "is_threshold_call (Send (ChangingTooFast _) _ _) = False"

fun is_rate_call :: "call \<Rightarrow> bool" where
  "is_rate_call (Send (ChangingTooFast _) _ _) = True"
| "is_rate_call (Send (ExceededThreshold _) _ _) = False"

text \<open>The readings the sensor returned over a run of passes, in order.\<close>

definition successful_readings :: "pass list \<Rightarrow> real list" where
  "successful_readings ps =
     List.map_filter (\<lambda>p. case read_temperature p of Returned t \<Rightarrow> t | Raised \<Rightarrow> None) ps"

section \<open>A concrete monitor\<close>

text \<open>
  A configuration as in the repository's tests: a file sensor, threshold 30, hysteresis 1,
  a webhook notifier; the rate threshold is the default 5.
\<close>

definition example_env :: environment where
  "example_env = \<lparr> MQTT_AVAILABLE = False, mqtt_setup_ok = (\<lambda>b t. False) \<rparr>"

definition example_sensor_config :: SensorConfig where
  "example_sensor_config =
     \<lparr> sensor_type = ''file'', file_path = Some ''/tmp/temp'', url = None, headers = None,
       broker = None, topic = None, pin = None \<rparr>"

definition example_alert_config :: AlertConfig where
  "example_alert_config =
     \<lparr> threshold = 30, hysteresis = 1, check_interval = 3600, rate_of_change_threshold = 5,
       notification_type = ''webhook'', notification_config = [(''url'', ''http://test.com'')] \<rparr>"

text \<open>The object \<open>init\<close> builds from them (lemma \<open>init_example\<close>).\<close>

definition example_alert :: TemperatureAlert where
  "example_alert =
     \<lparr> sensor_config = example_sensor_config, alert_config = example_alert_config,
       sensor = FileSensor (Some ''/tmp/temp''),
       notifier = WebhookNotifier (Some ''http://test.com'') ''POST'',
       running = False, current_temp = None, alert_active = False,
       last_temp = None, last_check_time = None, history = [], sent = [] \<rparr>"

text \<open>A pass that reads \<open>t\<close>, and a pass whose read fails, both at clock value \<open>now\<close>.\<close>

definition reading_pass :: "real \<Rightarrow> real \<Rightarrow> pass" where
  "reading_pass t now = \<lparr> read_temperature = Returned (Some t), check_time = now, end_time = now \<rparr>"

definition failed_pass :: "real \<Rightarrow> pass" where
  "failed_pass now = \<lparr> read_temperature = Returned None, check_time = now, end_time = now \<rparr>"

section \<open>Frame lemmas\<close>

lemma rate_of_change_check_frame:
  "alert_active (rate_of_change_check now self t) = alert_active self"
  "alert_config (rate_of_change_check now self t) = alert_config self"
  "history (rate_of_change_check now self t) = history self"
  "current_temp (rate_of_change_check now self t) = current_temp self"
  "last_temp (rate_of_change_check now self t) = last_temp self"
  "last_check_time (rate_of_change_check now self t) = last_check_time self"
  "running (rate_of_change_check now self t) = running self"
  "sensor (rate_of_change_check now self t) = sensor self"
  "notifier (rate_of_change_check now self t) = notifier self"
  by (simp_all add: rate_of_change_check_def notifier_send_def Let_def split: option.splits)

lemma notifier_send_frame:
  "alert_active (notifier_send self m t a) = alert_active self"
  "alert_config (notifier_send self m t a) = alert_config self"
  "history (notifier_send self m t a) = history self"
  "current_temp (notifier_send self m t a) = current_temp self"
  "running (notifier_send self m t a) = running self"
  "sensor (notifier_send self m t a) = sensor self"
  "notifier (notifier_send self m t a) = notifier self"
  by (simp_all add: notifier_send_def)

lemma check_alert_frame:
  "alert_config (snd (check_alert now self t)) = alert_config self"
  "history (snd (check_alert now self t)) = history self"
  "current_temp (snd (check_alert now self t)) = current_temp self"
  "running (snd (check_alert now self t)) = running self"
  "sensor (snd (check_alert now self t)) = sensor self"
  "notifier (snd (check_alert now self t)) = notifier self"
  by (simp_all add: check_alert_def Let_def rate_of_change_check_frame)

lemma record_reading_frame:
  "last_temp (record_reading self t) = last_temp self"
  "last_check_time (record_reading self t) = last_check_time self"
  "sent (record_reading self t) = sent self"
  "alert_config (record_reading self t) = alert_config self"
  "alert_active (record_reading self t) = alert_active self"
  "running (record_reading self t) = running self"
  "sensor (record_reading self t) = sensor self"
  "notifier (record_reading self t) = notifier self"
  "current_temp (record_reading self t) = Some t"
  by (simp_all add: record_reading_def Let_def)

lemma record_reading_history:
  "history (record_reading self t) =
     (if length (history self) \<ge> 100 then tl (history self @ [t]) else history self @ [t])"
  by (simp add: record_reading_def Let_def)

section \<open>What \<open>check_alert\<close> sends and returns\<close>

lemma rate_of_change_check_sent:
  "sent (rate_of_change_check now self t) =
     sent self @
     (case (last_temp self, last_check_time self) of
        (Some lt, Some lct) \<Rightarrow>
          if lt \<noteq> 0 \<and> lct \<noteq> 0 \<and> now - lct > 0
             \<and> \<bar>t - lt\<bar> / ((now - lct) / 60) > rate_of_change_threshold (alert_config self)
          then [Send (ChangingTooFast (\<bar>t - lt\<bar> / ((now - lct) / 60))) t True] else []
      | _ \<Rightarrow> [])"
  by (simp add: rate_of_change_check_def notifier_send_def Let_def split: option.splits)

lemma check_alert_sent:
  "sent (snd (check_alert now self t)) = sent (rate_of_change_check now self t)"
  by (simp add: check_alert_def Let_def)

lemma check_alert_no_baseline:
  "last_temp self = None \<Longrightarrow> sent (snd (check_alert now self t)) = sent self"
  by (simp add: check_alert_sent rate_of_change_check_sent)

lemma check_alert_result:
  "fst (check_alert now self t) = alert_active (snd (check_alert now self t))"
  by (simp add: check_alert_def Let_def)

lemma check_alert_only_alert_active_and_sent:
  "(snd (check_alert now self t))\<lparr>alert_active := alert_active self, sent := sent self\<rparr> = self"
  by (simp add: check_alert_def rate_of_change_check_def notifier_send_def Let_def
      split: option.splits)

lemma new_calls_append: "sent after = sent before @ xs \<Longrightarrow> new_calls before after = xs"
  by (simp add: new_calls_def)

lemma check_alert_new_calls:
  "new_calls self (snd (check_alert now self t)) =
     (case (last_temp self, last_check_time self) of
        (Some lt, Some lct) \<Rightarrow>
          if lt \<noteq> 0 \<and> lct \<noteq> 0 \<and> now - lct > 0
             \<and> \<bar>t - lt\<bar> / ((now - lct) / 60) > rate_of_change_threshold (alert_config self)
          then [Send (ChangingTooFast (\<bar>t - lt\<bar> / ((now - lct) / 60))) t True] else []
      | _ \<Rightarrow> [])"
  by (rule new_calls_append) (simp add: check_alert_sent rate_of_change_check_sent)

section \<open>One pass of the loop, by what the sensor did\<close>

lemma monitor_pass_failed:
  "read_temperature p = Returned None \<Longrightarrow>
   monitor_pass self p = self\<lparr>last_temp := None, last_check_time := Some (end_time p)\<rparr>"
  by (simp add: monitor_pass_def try_block_def)

lemma monitor_pass_raised:
  "read_temperature p = Raised \<Longrightarrow> monitor_pass self p = self"
  by (simp add: monitor_pass_def try_block_def)

lemma try_block_ok:
  "read_temperature p = Returned (Some t) \<Longrightarrow>
   try_block self p =
     Inr ((let self3 = snd (check_alert (check_time p) (record_reading self t) t)
           in if fst (check_alert (check_time p) (record_reading self t) t)
              then notifier_send self3 (ExceededThreshold (threshold (alert_config self3))) t True
              else self3)\<lparr>last_temp := Some t, last_check_time := Some (end_time p)\<rparr>)"
  by (auto simp add: try_block_def Let_def split: prod.splits)

lemma monitor_pass_ok:
  "read_temperature p = Returned (Some t) \<Longrightarrow>
   monitor_pass self p =
     (let self3 = snd (check_alert (check_time p) (record_reading self t) t)
      in if fst (check_alert (check_time p) (record_reading self t) t)
         then notifier_send self3 (ExceededThreshold (threshold (alert_config self3))) t True
         else self3)\<lparr>last_temp := Some t, last_check_time := Some (end_time p)\<rparr>"
  by (simp add: monitor_pass_def try_block_ok)

lemma monitor_pass_history:
  "history (monitor_pass self p) =
     (case read_temperature p of
        Returned (Some t) \<Rightarrow>
          if length (history self) \<ge> 100 then tl (history self @ [t]) else history self @ [t]
      | _ \<Rightarrow> history self)"
proof (cases "read_temperature p")
  case (Returned x)
  then show ?thesis
    by (cases x)
       (simp_all add: monitor_pass_failed monitor_pass_ok Let_def notifier_send_frame
          check_alert_frame record_reading_history)
next
  case Raised
  then show ?thesis by (simp add: monitor_pass_raised)
qed

lemma monitor_pass_fixed:
  "running (monitor_pass self p) = running self
 \<and> sensor (monitor_pass self p) = sensor self
 \<and> notifier (monitor_pass self p) = notifier self"
proof (cases "read_temperature p")
  case (Returned x)
  then show ?thesis
    by (cases x)
       (simp_all add: monitor_pass_failed monitor_pass_ok Let_def notifier_send_frame
          check_alert_frame record_reading_frame)
next
  case Raised
  then show ?thesis by (simp add: monitor_pass_raised)
qed

lemma monitor_loop_fixed:
  "sensor (monitor_loop self ps) = sensor self \<and> notifier (monitor_loop self ps) = notifier self"
  by (induction ps arbitrary: self) (simp_all add: monitor_pass_fixed)

lemma monitor_pass_alert_active:
  "read_temperature p = Returned (Some t) \<Longrightarrow>
   alert_active (monitor_pass self p) = fst (check_alert (check_time p) (record_reading self t) t)"
  by (simp add: monitor_pass_ok Let_def check_alert_result notifier_send_frame)

lemma monitor_pass_sent:
  "read_temperature p = Returned (Some t) \<Longrightarrow>
   sent (monitor_pass self p) =
     sent (snd (check_alert (check_time p) (record_reading self t) t)) @
     (if alert_active (monitor_pass self p)
      then [Send (ExceededThreshold (threshold (alert_config self))) t True] else [])"
  by (simp add: monitor_pass_ok Let_def check_alert_result notifier_send_frame
      check_alert_frame notifier_send_def record_reading_frame)

section \<open>The history window\<close>

lemma drop_window:
  "length h \<le> 100 \<Longrightarrow>
   drop (length ((if length h \<ge> 100 then tl (h @ [t]) else h @ [t]) @ rs) - 100)
        ((if length h \<ge> 100 then tl (h @ [t]) else h @ [t]) @ rs)
   = drop (length (h @ t # rs) - 100) (h @ t # rs)"
proof (cases h)
  case Nil
  then show ?thesis by simp
next
  case (Cons x h')
  assume "length h \<le> 100"
  with Cons show ?thesis by (cases "length h' = 99") simp_all
qed

lemma successful_readings_Nil: "successful_readings [] = []"
  by (simp add: successful_readings_def map_filter_simps)

lemma successful_readings_Cons:
  "successful_readings (p # ps) =
     (case read_temperature p of
        Returned (Some t) \<Rightarrow> t # successful_readings ps
      | _ \<Rightarrow> successful_readings ps)"
  by (simp add: successful_readings_def map_filter_simps split: read_result.splits option.splits)

lemma successful_readings_reading_pass:
  "successful_readings (map (\<lambda>n. reading_pass (f n) (g n)) ns) = map f ns"
  by (induction ns)
     (simp_all add: successful_readings_Nil successful_readings_Cons reading_pass_def)

lemma monitor_pass_history_bound:
  "length (history self) \<le> 100 \<Longrightarrow> length (history (monitor_pass self p)) \<le> 100"
  by (simp add: monitor_pass_history split: read_result.splits option.splits)

lemma monitor_loop_history_bound:
  "length (history self) \<le> 100 \<Longrightarrow> length (history (monitor_loop self ps)) \<le> 100"
  by (induction ps arbitrary: self) (simp_all add: monitor_pass_history_bound)

lemma monitor_loop_history:
  "running self \<Longrightarrow> length (history self) \<le> 100 \<Longrightarrow>
   history (monitor_loop self ps) =
     drop (length (history self @ successful_readings ps) - 100)
          (history self @ successful_readings ps)"
proof (induction ps arbitrary: self)
  case Nil
  then show ?case by (simp add: successful_readings_Nil)
next
  case (Cons p ps)
  have r: "running (monitor_pass self p)"
    using Cons.prems(1) by (simp add: monitor_pass_fixed)
  have b: "length (history (monitor_pass self p)) \<le> 100"
    using Cons.prems(2) by (rule monitor_pass_history_bound)
  have "history (monitor_loop self (p # ps)) = history (monitor_loop (monitor_pass self p) ps)"
    using Cons.prems(1) by simp
  also have "\<dots> = drop (length (history (monitor_pass self p) @ successful_readings ps) - 100)
                      (history (monitor_pass self p) @ successful_readings ps)"
    by (rule Cons.IH [OF r b])
  also have "\<dots> = drop (length (history self @ successful_readings (p # ps)) - 100)
                      (history self @ successful_readings (p # ps))"
  proof (cases "read_temperature p")
    case (Returned x)
    show ?thesis
    proof (cases x)
      case None
      with Returned show ?thesis
        by (simp add: monitor_pass_history successful_readings_Cons)
    next
      case (Some t)
      with Returned show ?thesis
        using drop_window [OF Cons.prems(2), of t "successful_readings ps"]
        by (simp add: monitor_pass_history successful_readings_Cons)
    qed
  next
    case Raised
    then show ?thesis by (simp add: monitor_pass_history successful_readings_Cons)
  qed
  finally show ?case .
qed

section \<open>Construction of the concrete monitor\<close>

lemma init_history: "init env sc ac = Inr self \<Longrightarrow> history self = []"
  by (auto simp add: init_def split: sum.splits)

lemma init_example: "init example_env example_sensor_config example_alert_config = Inr example_alert"
  by (simp add: init_def create_sensor_def create_notifier_def example_alert_def
      example_sensor_config_def example_alert_config_def)

section \<open>Claims\<close>

text \<open>
  C1. For every reading and every state, \<^verbatim>\<open>_check_alert\<close> updates \<^verbatim>\<open>_alert_active\<close> so:
  a reading at or above the threshold with the alarm off turns it on; a reading below
  threshold minus hysteresis with the alarm on turns it off; a reading in the dead band
  (threshold - hysteresis \<le> reading < threshold) leaves it as it was; and the returned
  boolean is the updated \<^verbatim>\<open>_alert_active\<close>.
\<close>

theorem C1_check_alert_hysteresis:
  "(threshold (alert_config self) \<le> t \<and> \<not> alert_active self
      \<longrightarrow> alert_active (snd (check_alert now self t)))
 \<and> (t < threshold (alert_config self) - hysteresis (alert_config self) \<and> alert_active self
      \<longrightarrow> \<not> alert_active (snd (check_alert now self t)))
 \<and> (threshold (alert_config self) - hysteresis (alert_config self) \<le> t
      \<and> t < threshold (alert_config self)
      \<longrightarrow> alert_active (snd (check_alert now self t)) = alert_active self)
 \<and> fst (check_alert now self t) = alert_active (snd (check_alert now self t))"
  by (simp add: check_alert_def Let_def rate_of_change_check_frame)

text \<open>
  The readings 31, 28.9 and 29.5 against threshold 30 and hysteresis 1: the alarm engages
  from off, disengages from on, and stays on inside the dead band.
\<close>

theorem C1_check_alert_hysteresis_witness:
  "alert_active (snd (check_alert 1060 example_alert 31))
 \<and> fst (check_alert 1060 example_alert 31)
 \<and> \<not> alert_active (snd (check_alert 1060 (example_alert\<lparr>alert_active := True\<rparr>) (289 / 10)))
 \<and> \<not> fst (check_alert 1060 (example_alert\<lparr>alert_active := True\<rparr>) (289 / 10))
 \<and> alert_active (snd (check_alert 1060 (example_alert\<lparr>alert_active := True\<rparr>) (59 / 2)))
 \<and> \<not> alert_active (snd (check_alert 1060 example_alert (59 / 2)))"
  using C1_check_alert_hysteresis [of example_alert 31 1060]
        C1_check_alert_hysteresis [of "example_alert\<lparr>alert_active := True\<rparr>" "289 / 10" 1060]
        C1_check_alert_hysteresis [of "example_alert\<lparr>alert_active := True\<rparr>" "59 / 2" 1060]
        C1_check_alert_hysteresis [of example_alert "59 / 2" 1060]
  by (simp add: example_alert_def example_alert_config_def)

text \<open>
  C2. Claimed: whenever \<^verbatim>\<open>_last_temp\<close> and \<^verbatim>\<open>_last_check_time\<close> are present and time has
  passed, the rate notification is sent exactly when
  \<open>\<bar>reading - last\<bar> / minutes > rate_of_change_threshold\<close>, for every previous reading,
  0.0 included. The guard of \<^verbatim>\<open>_check_alert\<close> tests truthiness, so a previous reading of
  0.0 counts as absent: from 0 to 10 degrees in one minute (rate 10, threshold 5) nothing is
  sent, while from 1 to 11 degrees in one minute the notification goes out.
\<close>

theorem C2_zero_baseline_skips_rate_check:
  "sent (snd (check_alert 1060
          (example_alert\<lparr>last_temp := Some 0, last_check_time := Some 1000\<rparr>) 10)) = []
 \<and> \<bar>10 - 0\<bar> / ((1060 - 1000) / 60) > rate_of_change_threshold (alert_config example_alert)
 \<and> sent (snd (check_alert 1060
          (example_alert\<lparr>last_temp := Some 1, last_check_time := Some 1000\<rparr>) 11))
     = [Send (ChangingTooFast 10) 11 True]"
  by (simp add: check_alert_sent rate_of_change_check_sent example_alert_def
      example_alert_config_def)

text \<open>
  C3, as claimed, fails: \<^verbatim>\<open>_check_alert\<close> itself calls the notifier for the rate of change.
  From 20 to 27 degrees in one minute it sends the rate message, where nothing had been sent.
\<close>

theorem C3_check_alert_sends_counterexample:
  "sent (snd (check_alert 1060
          (example_alert\<lparr>last_temp := Some 20, last_check_time := Some 1000\<rparr>) 27))
     \<noteq> sent (example_alert\<lparr>last_temp := Some 20, last_check_time := Some 1000\<rparr>)
 \<and> sent (snd (check_alert 1060
          (example_alert\<lparr>last_temp := Some 20, last_check_time := Some 1000\<rparr>) 27))
     = [Send (ChangingTooFast 7) 27 True]"
  by (simp add: check_alert_sent rate_of_change_check_sent example_alert_def
      example_alert_config_def)

text \<open>
  C3, amended. \<^verbatim>\<open>_check_alert\<close> changes nothing of the object but \<^verbatim>\<open>_alert_active\<close>, and
  its only effect besides is on the notifier: it keeps the earlier calls, never sends the
  threshold message, and sends at most one call, the rate message with the reading and
  \<^verbatim>\<open>alert=True\<close>, and that only when a previous reading and its time are present, time has
  passed and the rate exceeds the rate threshold.
\<close>

theorem C3_check_alert_effects:
  "(snd (check_alert now self t))\<lparr>alert_active := alert_active self, sent := sent self\<rparr> = self
 \<and> take (length (sent self)) (sent (snd (check_alert now self t))) = sent self
 \<and> filter is_threshold_call (new_calls self (snd (check_alert now self t))) = []
 \<and> (new_calls self (snd (check_alert now self t)) = []
      \<or> (\<exists>lt lct. last_temp self = Some lt \<and> last_check_time self = Some lct
            \<and> now - lct > 0
            \<and> \<bar>t - lt\<bar> / ((now - lct) / 60) > rate_of_change_threshold (alert_config self)
            \<and> new_calls self (snd (check_alert now self t))
                = [Send (ChangingTooFast (\<bar>t - lt\<bar> / ((now - lct) / 60))) t True]))"
  by (simp add: check_alert_only_alert_active_and_sent check_alert_new_calls
        check_alert_sent rate_of_change_check_sent split: option.splits)

text \<open>The same jump from 20 to 27 degrees: one call, the rate message, no threshold message.\<close>

theorem C3_check_alert_effects_witness:
  "new_calls (example_alert\<lparr>last_temp := Some 20, last_check_time := Some 1000\<rparr>)
     (snd (check_alert 1060
        (example_alert\<lparr>last_temp := Some 20, last_check_time := Some 1000\<rparr>) 27))
     = [Send (ChangingTooFast 7) 27 True]
 \<and> filter is_threshold_call
     (new_calls (example_alert\<lparr>last_temp := Some 20, last_check_time := Some 1000\<rparr>)
        (snd (check_alert 1060
           (example_alert\<lparr>last_temp := Some 20, last_check_time := Some 1000\<rparr>) 27))) = []"
proof -
  let ?s = "example_alert\<lparr>last_temp := Some 20, last_check_time := Some 1000\<rparr>"
  have sent: "sent (snd (check_alert 1060 ?s 27)) \<noteq> sent ?s"
    by (simp add: check_alert_sent rate_of_change_check_sent example_alert_def
        example_alert_config_def)
  have baseline: "last_temp ?s = Some 20" "last_check_time ?s = Some 1000"
    by simp_all
  from C3_check_alert_effects [where now = 1060 and t = 27 and self = ?s]
  have "filter is_threshold_call (new_calls ?s (snd (check_alert 1060 ?s 27))) = []"
    and "new_calls ?s (snd (check_alert 1060 ?s 27)) = []
      \<or> (\<exists>lt lct. last_temp ?s = Some lt \<and> last_check_time ?s = Some lct
            \<and> new_calls ?s (snd (check_alert 1060 ?s 27))
                = [Send (ChangingTooFast (\<bar>27 - lt\<bar> / ((1060 - lct) / 60))) 27 True])"
    and "take (length (sent ?s)) (sent (snd (check_alert 1060 ?s 27))) = sent ?s"
    by blast+
  moreover have "new_calls ?s (snd (check_alert 1060 ?s 27)) \<noteq> []"
    using sent \<open>take (length (sent ?s)) (sent (snd (check_alert 1060 ?s 27))) = sent ?s\<close>
    by (auto simp add: new_calls_def)
  ultimately show ?thesis
    using baseline by auto
qed

text \<open>
  C4. A pass whose sensor read returns \<^verbatim>\<open>None\<close> leaves the \<^verbatim>\<open>try\<close> block without an
  exception, leaves \<^verbatim>\<open>_history\<close> as it was, and resets the baseline: afterwards
  \<^verbatim>\<open>_last_temp\<close> is \<^verbatim>\<open>None\<close> and \<^verbatim>\<open>_last_check_time\<close> is the clock value read at the end of
  the pass. So the rate check on the next reading sends nothing, and the next successful
  pass makes no rate call.
\<close>

theorem C4_failed_read_resets_baseline:
  "read_temperature p = Returned None \<longrightarrow>
     try_block self p = Inr (monitor_pass self p)
   \<and> history (monitor_pass self p) = history self
   \<and> last_temp (monitor_pass self p) = None
   \<and> last_check_time (monitor_pass self p) = Some (end_time p)
   \<and> sent (snd (check_alert now (monitor_pass self p) r)) = sent (monitor_pass self p)
   \<and> (read_temperature q = Returned (Some r) \<longrightarrow>
        filter is_rate_call
          (new_calls (monitor_pass self p) (monitor_pass (monitor_pass self p) q)) = [])"
proof (intro impI conjI)
  assume p: "read_temperature p = Returned None"
  let ?s = "monitor_pass self p"
  show "try_block self p = Inr ?s"
    using p by (simp add: monitor_pass_def try_block_def)
  show "history ?s = history self"
    using p by (simp add: monitor_pass_failed)
  show "last_temp ?s = None"
    using p by (simp add: monitor_pass_failed)
  show "last_check_time ?s = Some (end_time p)"
    using p by (simp add: monitor_pass_failed)
  show "sent (snd (check_alert now ?s r)) = sent ?s"
    using p by (simp add: check_alert_no_baseline monitor_pass_failed)
  assume q: "read_temperature q = Returned (Some r)"
  have "last_temp (record_reading ?s r) = None"
    using p by (simp add: record_reading_frame monitor_pass_failed)
  then have "sent (snd (check_alert (check_time q) (record_reading ?s r) r)) = sent ?s"
    by (simp add: check_alert_no_baseline record_reading_frame)
  then have "new_calls ?s (monitor_pass ?s q) =
      (if alert_active (monitor_pass ?s q)
       then [Send (ExceededThreshold (threshold (alert_config ?s))) r True] else [])"
    using monitor_pass_sent [OF q, of ?s] by (simp add: new_calls_def)
  then show "filter is_rate_call (new_calls ?s (monitor_pass ?s q)) = []"
    by simp
qed

text \<open>
  A reading of 20, a failed read a minute later, then a reading of 27 another minute later:
  the failed pass clears the baseline, and the jump of 7 degrees raises no rate call.
\<close>

theorem C4_failed_read_resets_baseline_witness:
  "last_temp (monitor_pass (monitor_pass example_alert (reading_pass 20 1000)) (failed_pass 1060))
     = None
 \<and> last_check_time
     (monitor_pass (monitor_pass example_alert (reading_pass 20 1000)) (failed_pass 1060))
     = Some 1060
 \<and> history (monitor_pass (monitor_pass example_alert (reading_pass 20 1000)) (failed_pass 1060))
     = history (monitor_pass example_alert (reading_pass 20 1000))
 \<and> filter is_rate_call
     (new_calls
        (monitor_pass (monitor_pass example_alert (reading_pass 20 1000)) (failed_pass 1060))
        (monitor_pass
           (monitor_pass (monitor_pass example_alert (reading_pass 20 1000)) (failed_pass 1060))
           (reading_pass 27 1120))) = []"
  using C4_failed_read_resets_baseline
          [where p = "failed_pass 1060" and now = 1120 and r = 27
             and self = "monitor_pass example_alert (reading_pass 20 1000)"
             and q = "reading_pass 27 1120"]
  by (simp add: failed_pass_def reading_pass_def)

text \<open>
  C5, as claimed, fails: a reading of 25 followed by a failed read leaves \<^verbatim>\<open>_current_temp\<close>
  at 25, not \<^verbatim>\<open>None\<close>.
\<close>

theorem C5_current_temp_kept_counterexample:
  "current_temp
     (monitor_pass (monitor_pass example_alert (reading_pass 25 1000)) (failed_pass 1060))
   = Some 25
 \<and> current_temp
     (monitor_pass (monitor_pass example_alert (reading_pass 25 1000)) (failed_pass 1060))
   \<noteq> None"
  by (simp add: monitor_pass_failed monitor_pass_ok Let_def notifier_send_frame
      check_alert_frame record_reading_frame failed_pass_def reading_pass_def)

text \<open>
  C5, amended. A pass whose sensor read returns \<^verbatim>\<open>None\<close> leaves \<^verbatim>\<open>_current_temp\<close> as it
  was: absent if it was absent, and otherwise still the last successful reading.
\<close>

theorem C5_failed_read_keeps_current_temp:
  "read_temperature p = Returned None \<Longrightarrow> current_temp (monitor_pass self p) = current_temp self"
  by (simp add: monitor_pass_failed)

theorem C5_failed_read_keeps_current_temp_witness:
  "current_temp (monitor_pass example_alert (failed_pass 1060)) = None
 \<and> current_temp (monitor_pass (example_alert\<lparr>current_temp := Some 25\<rparr>) (failed_pass 1060))
     = Some 25"
  using C5_failed_read_keeps_current_temp [where p = "failed_pass 1060" and self = example_alert]
        C5_failed_read_keeps_current_temp
          [where p = "failed_pass 1060" and self = "example_alert\<lparr>current_temp := Some 25\<rparr>"]
  by (simp add: failed_pass_def example_alert_def)

text \<open>
  C6. \<^verbatim>\<open>_history\<close> never holds more than 100 entries after a pass, whatever the passes,
  and eviction is first in, first out: the history is the last 100 of the readings kept and
  appended. After 101 successful readings on a new monitor the first is gone and the
  other 100 remain, in order.
\<close>

theorem C6_history_bounded_fifo:
  "(length (history self) \<le> 100 \<longrightarrow> length (history (monitor_loop self ps)) \<le> 100)
 \<and> (running self \<and> length (history self) \<le> 100 \<longrightarrow>
       history (monitor_loop self ps) =
         drop (length (history self @ successful_readings ps) - 100)
              (history self @ successful_readings ps))
 \<and> (init env sc ac = Inr self0 \<and> length (successful_readings ps) = 101 \<longrightarrow>
       history (monitor_loop (self0\<lparr>running := True\<rparr>) ps) = tl (successful_readings ps))"
proof (intro conjI impI)
  assume "length (history self) \<le> 100"
  then show "length (history (monitor_loop self ps)) \<le> 100"
    by (rule monitor_loop_history_bound)
next
  assume "running self \<and> length (history self) \<le> 100"
  then show "history (monitor_loop self ps) =
         drop (length (history self @ successful_readings ps) - 100)
              (history self @ successful_readings ps)"
    using monitor_loop_history [of self ps] by simp
next
  assume a: "init env sc ac = Inr self0 \<and> length (successful_readings ps) = 101"
  then have "history self0 = []"
    by (auto dest: init_history)
  then have "history (self0\<lparr>running := True\<rparr>) = []"
    by simp
  with a have "history (monitor_loop (self0\<lparr>running := True\<rparr>) ps)
      = drop 1 (successful_readings ps)"
    using monitor_loop_history [of "self0\<lparr>running := True\<rparr>" ps] by simp
  then show "history (monitor_loop (self0\<lparr>running := True\<rparr>) ps) = tl (successful_readings ps)"
    by (simp add: drop_Suc)
qed

text \<open>
  The readings 0, 1, ..., 100, one a minute, on the monitor built from the example
  configuration: the history is 1, ..., 100.
\<close>

theorem C6_history_bounded_fifo_witness:
  "history (monitor_loop (example_alert\<lparr>running := True\<rparr>)
      (map (\<lambda>n. reading_pass (real n) (60 * real n)) [0..<101]))
     = map real [1..<101]
 \<and> length (history (monitor_loop (example_alert\<lparr>running := True\<rparr>)
      (map (\<lambda>n. reading_pass (real n) (60 * real n)) [0..<101]))) \<le> 100"
proof -
  let ?ps = "map (\<lambda>n. reading_pass (real n) (60 * real n)) [0..<101]"
  let ?s = "example_alert\<lparr>running := True\<rparr>"
  have rs: "successful_readings ?ps = map real [0..<101]"
    by (rule successful_readings_reading_pass)
  have h: "length (history ?s) \<le> 100"
    by (simp add: example_alert_def)
  have n: "length (successful_readings ?ps) = 101"
    by (simp add: rs)
  from C6_history_bounded_fifo
         [where self = ?s and ps = ?ps and env = example_env and sc = example_sensor_config
            and ac = example_alert_config and ?self0.0 = example_alert]
       init_example h n
  have "length (history (monitor_loop ?s ?ps)) \<le> 100"
    and "history (monitor_loop ?s ?ps) = tl (successful_readings ?ps)"
    by blast+
  moreover have "tl (map real [0..<101]) = map real [1..<101]"
    by (simp add: map_tl [symmetric] del: map_tl)
  ultimately show ?thesis
    by (simp add: rs)
qed

text \<open>
  C7. The threshold notification is level-triggered. On a pass with a successful reading,
  \<^verbatim>\<open>_alert_active\<close> after the pass is what \<^verbatim>\<open>_check_alert\<close> returned, the earlier calls
  are kept, and among the new calls there is exactly one threshold call, with the threshold
  message, the reading and \<^verbatim>\<open>alert=True\<close>, when \<^verbatim>\<open>_alert_active\<close> is true (newly or still),
  and none when it is false.
\<close>

theorem C7_threshold_notification_level_triggered:
  "read_temperature p = Returned (Some t) \<Longrightarrow>
   alert_active (monitor_pass self p) = fst (check_alert (check_time p) (record_reading self t) t)
 \<and> take (length (sent self)) (sent (monitor_pass self p)) = sent self
 \<and> filter is_threshold_call (new_calls self (monitor_pass self p)) =
     (if alert_active (monitor_pass self p)
      then [Send (ExceededThreshold (threshold (alert_config self))) t True] else [])"
  by (simp add: monitor_pass_alert_active monitor_pass_sent check_alert_sent
      rate_of_change_check_sent record_reading_frame new_calls_def split: option.splits)

text \<open>
  Threshold 30, hysteresis 1. A reading of 31 engages the alarm and is notified; a reading
  of 29.5 with the alarm already on keeps it on and is notified again; a reading of 28
  with the alarm off is not.
\<close>

theorem C7_threshold_notification_level_triggered_witness:
  "filter is_threshold_call
     (new_calls example_alert (monitor_pass example_alert (reading_pass 31 1000)))
     = [Send (ExceededThreshold 30) 31 True]
 \<and> filter is_threshold_call
     (new_calls (example_alert\<lparr>alert_active := True\<rparr>)
        (monitor_pass (example_alert\<lparr>alert_active := True\<rparr>) (reading_pass (59 / 2) 1060)))
     = [Send (ExceededThreshold 30) (59 / 2) True]
 \<and> filter is_threshold_call
     (new_calls example_alert (monitor_pass example_alert (reading_pass 28 1000)))
     = []"
proof -
  have p: "read_temperature (reading_pass t now) = Returned (Some t)" for t now
    by (simp add: reading_pass_def)
  have a: "fst (check_alert now (record_reading example_alert 31) 31)" for now
    by (simp add: check_alert_def Let_def rate_of_change_check_frame record_reading_frame
        example_alert_def example_alert_config_def)
  have b: "fst (check_alert now (record_reading (example_alert\<lparr>alert_active := True\<rparr>) (59 / 2))
             (59 / 2))" for now
    by (simp add: check_alert_def Let_def rate_of_change_check_frame record_reading_frame
        example_alert_def example_alert_config_def)
  have c: "\<not> fst (check_alert now (record_reading example_alert 28) 28)" for now
    by (simp add: check_alert_def Let_def rate_of_change_check_frame record_reading_frame
        example_alert_def example_alert_config_def)
  have thr: "threshold (alert_config example_alert) = 30"
            "threshold (alert_config (example_alert\<lparr>alert_active := True\<rparr>)) = 30"
    by (simp_all add: example_alert_def example_alert_config_def)
  show ?thesis
    using C7_threshold_notification_level_triggered [OF p, of example_alert 31 1000]
          C7_threshold_notification_level_triggered
            [OF p, of "example_alert\<lparr>alert_active := True\<rparr>" "59 / 2" 1060]
          C7_threshold_notification_level_triggered [OF p, of example_alert 28 1000]
          a b c thr
    by (simp add: reading_pass_def)
qed

text \<open>
  C8. An unknown sensor type or an unknown notification type makes construction fail:
  \<open>init\<close> returns an error (the \<^verbatim>\<open>ValueError\<close> of \<^verbatim>\<open>_create_sensor\<close>, or, the sensor
  built, that of \<^verbatim>\<open>_create_notifier\<close>), so there is no object whose loop could run. With
  supported types construction never raises either of these errors, and it succeeds unless
  the MQTT client cannot be set up. The loop never builds a sensor or a notifier: it keeps
  the ones made at construction.
\<close>

theorem C8_unknown_types_fail_at_construction:
  "(sensor_type sc \<notin> {''file'', ''http'', ''mqtt'', ''gpio''}
      \<longrightarrow> init env sc ac = Inl (ValueError (''Unknown sensor type: '' @ sensor_type sc)))
 \<and> (notification_type ac \<notin> {''telegram'', ''discord'', ''webhook''}
      \<longrightarrow> (\<exists>e. init env sc ac = Inl e)
        \<and> (\<forall>sn. create_sensor env sc = Inr sn \<longrightarrow>
              init env sc ac
                = Inl (ValueError (''Unknown notification type: '' @ notification_type ac))))
 \<and> (sensor_type sc \<in> {''file'', ''http'', ''mqtt'', ''gpio''}
      \<and> notification_type ac \<in> {''telegram'', ''discord'', ''webhook''}
      \<longrightarrow> (\<forall>x. init env sc ac \<noteq> Inl (ValueError (''Unknown sensor type: '' @ x))
                \<and> init env sc ac \<noteq> Inl (ValueError (''Unknown notification type: '' @ x)))
        \<and> (sensor_type sc \<noteq> ''mqtt''
              \<or> MQTT_AVAILABLE env \<and> mqtt_setup_ok env (broker sc) (topic sc)
            \<longrightarrow> (\<exists>self. init env sc ac = Inr self)))
 \<and> sensor (monitor_loop self ps) = sensor self
 \<and> notifier (monitor_loop self ps) = notifier self"
proof -
  have "sensor (monitor_loop self ps) = sensor self \<and> notifier (monitor_loop self ps) = notifier self"
    by (rule monitor_loop_fixed)
  moreover have "sensor_type sc \<notin> {''file'', ''http'', ''mqtt'', ''gpio''}
      \<longrightarrow> init env sc ac = Inl (ValueError (''Unknown sensor type: '' @ sensor_type sc))"
    by (simp add: init_def create_sensor_def)
  moreover have "notification_type ac \<notin> {''telegram'', ''discord'', ''webhook''}
      \<longrightarrow> (\<exists>e. init env sc ac = Inl e)
        \<and> (\<forall>sn. create_sensor env sc = Inr sn \<longrightarrow>
              init env sc ac
                = Inl (ValueError (''Unknown notification type: '' @ notification_type ac)))"
    by (auto simp add: init_def create_notifier_def Let_def split: sum.splits)
  moreover have "sensor_type sc \<in> {''file'', ''http'', ''mqtt'', ''gpio''}
      \<and> notification_type ac \<in> {''telegram'', ''discord'', ''webhook''}
      \<longrightarrow> (\<forall>x. init env sc ac \<noteq> Inl (ValueError (''Unknown sensor type: '' @ x))
                \<and> init env sc ac \<noteq> Inl (ValueError (''Unknown notification type: '' @ x)))
        \<and> (sensor_type sc \<noteq> ''mqtt''
              \<or> MQTT_AVAILABLE env \<and> mqtt_setup_ok env (broker sc) (topic sc)
            \<longrightarrow> (\<exists>self. init env sc ac = Inr self))"
    by (auto simp add: init_def create_sensor_def create_notifier_def Let_def)
  ultimately show ?thesis by blast
qed

text \<open>
  The example configuration builds a monitor; with the sensor type \<open>''serial''\<close>, or the
  notification type \<open>''sms''\<close>, construction raises the \<^verbatim>\<open>ValueError\<close>.
\<close>

theorem C8_unknown_types_fail_at_construction_witness:
  "init example_env (example_sensor_config\<lparr>sensor_type := ''serial''\<rparr>) example_alert_config
     = Inl (ValueError ''Unknown sensor type: serial'')
 \<and> init example_env example_sensor_config (example_alert_config\<lparr>notification_type := ''sms''\<rparr>)
     = Inl (ValueError ''Unknown notification type: sms'')
 \<and> (\<exists>self. init example_env example_sensor_config example_alert_config = Inr self)"
proof -
  have sn: "create_sensor example_env example_sensor_config = Inr (FileSensor (Some ''/tmp/temp''))"
    by (simp add: create_sensor_def example_sensor_config_def)
  show ?thesis
    using C8_unknown_types_fail_at_construction
            [where env = example_env and ac = example_alert_config
               and sc = "example_sensor_config\<lparr>sensor_type := ''serial''\<rparr>"]
          C8_unknown_types_fail_at_construction
            [where env = example_env and sc = example_sensor_config
               and ac = "example_alert_config\<lparr>notification_type := ''sms''\<rparr>"]
          C8_unknown_types_fail_at_construction
            [where env = example_env and sc = example_sensor_config
               and ac = example_alert_config]
          sn
    by (simp add: example_sensor_config_def example_alert_config_def)
qed

text \<open>
  C9. A pass whose sensor read returns \<^verbatim>\<open>None\<close> changes two fields only: \<^verbatim>\<open>_last_temp\<close>
  becomes \<^verbatim>\<open>None\<close> and \<^verbatim>\<open>_last_check_time\<close> the clock value read at the end of the pass.
  \<^verbatim>\<open>_alert_active\<close>, \<^verbatim>\<open>_current_temp\<close> and \<^verbatim>\<open>_history\<close> (and the calls made on the notifier)
  are as they were.
\<close>

theorem C9_failed_read_frame:
  "read_temperature p = Returned None \<Longrightarrow>
   monitor_pass self p = self\<lparr>last_temp := None, last_check_time := Some (end_time p)\<rparr>
   \<and> alert_active (monitor_pass self p) = alert_active self
   \<and> current_temp (monitor_pass self p) = current_temp self
   \<and> history (monitor_pass self p) = history self
   \<and> sent (monitor_pass self p) = sent self"
  by (simp add: monitor_pass_failed)

text \<open>After a reading of 31 (alarm on, one notification), a failed read a minute later.\<close>

theorem C9_failed_read_frame_witness:
  "monitor_pass
     (example_alert\<lparr>alert_active := True, current_temp := Some 31, history := [31],
        last_temp := Some 31, last_check_time := Some 1000,
        sent := [Send (ExceededThreshold 30) 31 True]\<rparr>)
     (failed_pass 1060)
   = example_alert\<lparr>alert_active := True, current_temp := Some 31, history := [31],
        last_temp := None, last_check_time := Some 1060,
        sent := [Send (ExceededThreshold 30) 31 True]\<rparr>"
  using C9_failed_read_frame
          [where p = "failed_pass 1060"
             and self = "example_alert\<lparr>alert_active := True, current_temp := Some 31,
                history := [31], last_temp := Some 31, last_check_time := Some 1000,
                sent := [Send (ExceededThreshold 30) 31 True]\<rparr>"]
  by (simp add: failed_pass_def)

end
